theory Spec2Isabelle
  imports Complex_Main
begin

section \<open>The Liquid user stream data source\<close>

text \<open>
  A shallow embedding of \<^verbatim>\<open>LiquidAPIUserStreamDataSource\<close>
  (\<^verbatim>\<open>hummingbot/market/liquid/liquid_api_user_stream_data_source.py\<close>).

  The class runs one coroutine, \<^verbatim>\<open>listen_for_user_stream\<close>, which drives the
  asynchronous generator \<^verbatim>\<open>_inner_messages\<close>. Both only make progress when the
  event loop answers an \<^verbatim>\<open>await\<close>, so the coroutine is modelled as a machine whose
  states are its suspension points: one step resumes the coroutine with the reply to the
  pending \<^verbatim>\<open>await\<close> and runs it up to the next \<^verbatim>\<open>await\<close>, recording every
  call it makes on the way (sends, pings, closes, queue puts, log records, sleeps).
  A run is the machine folded over the list of replies the environment gives.
\<close>

subsection \<open>Python values\<close>

text \<open>What \<^verbatim>\<open>ujson.loads\<close> can return, and what \<^verbatim>\<open>ujson.dumps\<close> is given.
  A dict is an association list with string keys.\<close>

datatype pyval =
    PNone
  | PBool bool
  | PInt int
  | PFloat rat
  | PStr string
  | PList "pyval list"
  | PDict "(string \<times> pyval) list"

text \<open>The exceptions that the code raises, catches or lets through. Every one except
  \<open>CancelledError\<close> is handled by \<^verbatim>\<open>except Exception\<close>; \<open>CancelledError\<close> is
  re-raised by the clause before it.\<close>

datatype exn =
    CancelledError
  | TimeoutError
  | ConnectionClosed
  | ValueError
  | KeyError
  | IndexError
  | AttributeError
  | TypeError
  | QueueFull
  | OtherError

text \<open>Python's truth value of an object, as \<^verbatim>\<open>not event_type\<close> tests it.\<close>

fun truthy :: "pyval \<Rightarrow> bool" where
  "truthy PNone = False"
| "truthy (PBool b) = b"
| "truthy (PInt i) = (i \<noteq> 0)"
| "truthy (PFloat r) = (r \<noteq> 0)"
| "truthy (PStr s) = (s \<noteq> [])"
| "truthy (PList xs) = (xs \<noteq> [])"
| "truthy (PDict kvs) = (kvs \<noteq> [])"

text \<open>\<^verbatim>\<open>obj.get(key)\<close> and \<^verbatim>\<open>obj.get(key, None)\<close>: only a dict has the method,
  and a missing key gives \<^verbatim>\<open>None\<close>.\<close>

fun py_get :: "pyval \<Rightarrow> string \<Rightarrow> exn + pyval" where
  "py_get (PDict kvs) k = (case map_of kvs k of None \<Rightarrow> Inr PNone | Some v \<Rightarrow> Inr v)"
| "py_get _ k = Inl AttributeError"

subsection \<open>Strings\<close>

text \<open>\<^verbatim>\<open>str.lower\<close> and \<^verbatim>\<open>str.upper\<close> on ASCII text (a \<open>char\<close> is a byte
  here; channel names, currencies and trading pairs of the venue are ASCII).\<close>

definition lower_char :: "char \<Rightarrow> char" where
  "lower_char c =
     (case map_of (zip ''ABCDEFGHIJKLMNOPQRSTUVWXYZ'' ''abcdefghijklmnopqrstuvwxyz'') c of
        None \<Rightarrow> c
      | Some l \<Rightarrow> l)"

definition upper_char :: "char \<Rightarrow> char" where
  "upper_char c =
     (case map_of (zip ''abcdefghijklmnopqrstuvwxyz'' ''ABCDEFGHIJKLMNOPQRSTUVWXYZ'') c of
        None \<Rightarrow> c
      | Some u \<Rightarrow> u)"

definition lower :: "string \<Rightarrow> string" where
  "lower s = map lower_char s"

definition upper :: "string \<Rightarrow> string" where
  "upper s = map upper_char s"

text \<open>\<^verbatim>\<open>s.split(sep)\<close> for a one-character separator: the pieces between the
  separators, empty pieces kept; the empty string gives one empty piece.\<close>

fun split_str :: "char \<Rightarrow> string \<Rightarrow> string list" where
  "split_str sep [] = [[]]"
| "split_str sep (c # cs) =
     (if c = sep then [] # split_str sep cs
      else (case split_str sep cs of
              [] \<Rightarrow> [[c]]
            | w # ws \<Rightarrow> (c # w) # ws))"

text \<open>\<^verbatim>\<open>obj.split('_')\<close>: only a string has the method.\<close>

fun py_split :: "pyval \<Rightarrow> char \<Rightarrow> exn + string list" where
  "py_split (PStr s) sep = Inr (split_str sep s)"
| "py_split _ sep = Inl AttributeError"

text \<open>\<^verbatim>\<open>xs[-1]\<close>.\<close>

definition last_item :: "'a list \<Rightarrow> exn + 'a" where
  "last_item xs = (if xs = [] then Inl IndexError else Inr (last xs))"

text \<open>A format string of \<^verbatim>\<open>str.format\<close>: literal text, named fields
  \<^verbatim>\<open>{name}\<close> and positional fields \<^verbatim>\<open>{0}\<close>. The call in the source passes
  keyword arguments only, so a positional field raises \<^verbatim>\<open>IndexError\<close> and a named
  field that is not among the keywords raises \<^verbatim>\<open>KeyError\<close>.\<close>

datatype piece = Lit string | Field string | Positional nat

fun format_kw :: "piece list \<Rightarrow> (string \<times> string) list \<Rightarrow> exn + string" where
  "format_kw [] kw = Inr []"
| "format_kw (Lit s # ps) kw =
     (case format_kw ps kw of Inl e \<Rightarrow> Inl e | Inr r \<Rightarrow> Inr (s @ r))"
| "format_kw (Field k # ps) kw =
     (case map_of kw k of
        None \<Rightarrow> Inl KeyError
      | Some v \<Rightarrow> (case format_kw ps kw of Inl e \<Rightarrow> Inl e | Inr r \<Rightarrow> Inr (v @ r)))"
| "format_kw (Positional i # ps) kw = Inl IndexError"

subsection \<open>The environment\<close>

text \<open>A frame delivered by \<^verbatim>\<open>ws.recv()\<close> is represented by what the code reads
  while it handles the frame: what \<^verbatim>\<open>ujson.loads\<close> makes of its text (\<open>None\<close>
  when the text is not JSON), what \<^verbatim>\<open>time.time()\<close> returns, and whether the
  output queue is full at that moment (a bounded queue that its consumer has not
  drained), which is what \<^verbatim>\<open>put_nowait\<close> tests.\<close>

record frame =
  decoded :: "pyval option"
  received_at :: rat
  queue_full :: bool

text \<open>What an awaited call can return: nothing of interest, the market table of
  \<^verbatim>\<open>get_active_exchange_markets\<close> (trading pair to quoted currency), or a frame.\<close>

datatype pyobj =
    NoneObj
  | DataFrame "(string \<times> string) list"
  | Text frame

text \<open>The event loop's answer to a pending \<^verbatim>\<open>await\<close>: the call returns, or an
  exception is raised at the \<^verbatim>\<open>await\<close>. Cancelling the task is
  \<open>Raise CancelledError\<close>; a timeout of \<^verbatim>\<open>asyncio.wait_for\<close> is
  \<open>Raise TimeoutError\<close>.\<close>

datatype reply = Return pyobj | Raise exn

text \<open>The calls the coroutine makes, in the order it makes them. \<open>Put\<close> is a call
  of \<^verbatim>\<open>output.put_nowait\<close> that the queue accepts; \<open>Close\<close> is one call of
  \<^verbatim>\<open>ws.close()\<close>, made by the generator's \<^verbatim>\<open>finally\<close> clause or by the exit
  of \<^verbatim>\<open>async with websockets.connect(...)\<close>.\<close>

datatype 'e action =
    Connect string
  | Send pyval
  | GetMarkets
  | Recv rat
  | Ping
  | WaitPong rat
  | Close
  | Put 'e
  | LogWarning
  | LogError
  | Sleep rat

text \<open>The object's fields and the collaborators that are not part of this file: the
  values of \<^verbatim>\<open>Constants\<close>, the payload of \<^verbatim>\<open>LiquidAuth.get_ws_auth_data\<close> and
  \<^verbatim>\<open>LiquidOrderBook.diff_message_from_exchange\<close> are parameters.\<close>

record 'e config =
  trading_pairs :: "string list"
  ws_auth_data :: pyval
  BAEE_WS_URL :: string
  WS_AUTH_REQUEST_EVENT :: string
  WS_PUSHER_SUBSCRIBE_EVENT :: string
  WS_USER_ACCOUNTS_SUBSCRIPTION :: "piece list"
  MESSAGE_TIMEOUT :: rat
  PING_TIMEOUT :: rat
  diff_message_from_exchange :: "pyval \<Rightarrow> rat \<Rightarrow> pyval \<Rightarrow> exn + 'e"

subsection \<open>Requests\<close>

definition auth_request :: "'e config \<Rightarrow> pyval" where
  "auth_request cfg =
     PDict [(''event'', PStr (WS_AUTH_REQUEST_EVENT cfg)), (''data'', ws_auth_data cfg)]"

text \<open>\<^verbatim>\<open>Constants.WS_USER_ACCOUNTS_SUBSCRIPTION.format(quoted_currency=quoted_currency.lower())\<close>\<close>

definition channel_name :: "'e config \<Rightarrow> string \<Rightarrow> exn + string" where
  "channel_name cfg quoted_currency =
     format_kw (WS_USER_ACCOUNTS_SUBSCRIPTION cfg) [(''quoted_currency'', lower quoted_currency)]"

definition subscribe_request :: "'e config \<Rightarrow> string \<Rightarrow> exn + pyval" where
  "subscribe_request cfg quoted_currency =
     (case channel_name cfg quoted_currency of
        Inl e \<Rightarrow> Inl e
      | Inr channel \<Rightarrow>
          Inr (PDict [(''event'', PStr (WS_PUSHER_SUBSCRIBE_EVENT cfg)),
                      (''data'', PDict [(''channel'', PStr channel)])]))"

text \<open>\<^verbatim>\<open>active_markets_df.loc[trading_pair, 'quoted_currency']\<close>: a pair that is not
  in the table raises \<^verbatim>\<open>KeyError\<close>; an object that is no table has no \<^verbatim>\<open>loc\<close>.\<close>

fun loc :: "pyobj \<Rightarrow> string \<Rightarrow> exn + string" where
  "loc (DataFrame df) trading_pair =
     (case map_of df trading_pair of None \<Rightarrow> Inl KeyError | Some q \<Rightarrow> Inr q)"
| "loc _ trading_pair = Inl AttributeError"

text \<open>The list comprehension over \<^verbatim>\<open>self._trading_pairs\<close>: every pair is looked up
  before any subscribe request is built.\<close>

fun quoted_currencies :: "pyobj \<Rightarrow> string list \<Rightarrow> exn + string list" where
  "quoted_currencies df [] = Inr []"
| "quoted_currencies df (trading_pair # rest) =
     (case loc df trading_pair of
        Inl e \<Rightarrow> Inl e
      | Inr q \<Rightarrow>
          (case quoted_currencies df rest of Inl e \<Rightarrow> Inl e | Inr qs \<Rightarrow> Inr (q # qs)))"

subsection \<open>Handling one frame\<close>

definition ujson_loads :: "frame \<Rightarrow> exn + pyval" where
  "ujson_loads raw_msg = (case decoded raw_msg of None \<Rightarrow> Inl ValueError | Some v \<Rightarrow> Inr v)"

text \<open>The pair named by a channel: \<^verbatim>\<open>diff_msg.get('channel').split('_')[-1].upper()\<close>.\<close>

definition channel_trading_pair :: "pyval \<Rightarrow> exn + string" where
  "channel_trading_pair diff_msg =
     (case py_get diff_msg ''channel'' of
        Inl e \<Rightarrow> Inl e
      | Inr channel \<Rightarrow>
          (case py_split channel (CHR ''_'') of
             Inl e \<Rightarrow> Inl e
           | Inr segments \<Rightarrow>
               (case last_item segments of Inl e \<Rightarrow> Inl e | Inr s \<Rightarrow> Inr (upper s))))"

text \<open>The body of the \<^verbatim>\<open>async for\<close> loop for one yielded message: the puts it
  makes, or the exception it raises. \<^verbatim>\<open>put_nowait\<close> raises \<^verbatim>\<open>QueueFull\<close>
  when the queue is full, and the event is then not enqueued.\<close>

definition on_message :: "'e config \<Rightarrow> pyobj \<Rightarrow> exn + 'e action list" where
  "on_message cfg raw_msg =
     (case raw_msg of
        Text fr \<Rightarrow>
          (case ujson_loads fr of
             Inl e \<Rightarrow> Inl e
           | Inr diff_msg \<Rightarrow>
               (case py_get diff_msg ''event'' of
                  Inl e \<Rightarrow> Inl e
                | Inr event_type \<Rightarrow>
                    if event_type = PStr ''updated'' then
                      (case channel_trading_pair diff_msg of
                         Inl e \<Rightarrow> Inl e
                       | Inr trading_pair \<Rightarrow>
                           (case diff_message_from_exchange cfg diff_msg (received_at fr)
                                   (PDict [(''trading_pair'', PStr trading_pair)]) of
                              Inl e \<Rightarrow> Inl e
                            | Inr ev \<Rightarrow> if queue_full fr then Inl QueueFull else Inr [Put ev]))
                    else if \<not> truthy event_type then Inl ValueError
                    else Inr []))
      | _ \<Rightarrow> Inl TypeError)"

subsection \<open>The generator \<^verbatim>\<open>_inner_messages\<close>\<close>

text \<open>The generator is suspended in \<^verbatim>\<open>wait_for(ws.recv())\<close>, in
  \<^verbatim>\<open>ws.ping()\<close>, in \<^verbatim>\<open>wait_for(pong_waiter)\<close>, or in the
  \<^verbatim>\<open>ws.close()\<close> of its \<^verbatim>\<open>finally\<close> clause. In the last case the clause
  was entered either by a \<^verbatim>\<open>return\<close> (\<open>None\<close>) or by an exception that is
  raised again when the close returns (\<open>Some e\<close>).\<close>

datatype gen_state = AwaitRecv | AwaitPing | AwaitPong | AwaitClose "exn option"

text \<open>What resuming it leads to: the next \<^verbatim>\<open>await\<close>, a yielded message, the end of
  the iteration, or an exception that leaves the generator.\<close>

datatype gen_event = GAwait gen_state | GYield pyobj | GReturn | GRaise exn

text \<open>An exception that reaches the outer \<^verbatim>\<open>try\<close> of the generator: a timeout is
  logged and ends the iteration, a closed connection ends it silently, anything else
  propagates; in each case the \<^verbatim>\<open>finally\<close> clause first calls
  \<^verbatim>\<open>ws.close()\<close> and awaits it.\<close>

definition gen_exit :: "exn \<Rightarrow> 'e action list \<times> gen_event" where
  "gen_exit e =
     (if e = TimeoutError then ([LogWarning, Close], GAwait (AwaitClose None))
      else if e = ConnectionClosed then ([Close], GAwait (AwaitClose None))
      else ([Close], GAwait (AwaitClose (Some e))))"

text \<open>One resumption of the generator. An exception raised by the close of the
  \<^verbatim>\<open>finally\<close> clause takes the place of the pending return or exception.\<close>

fun inner_messages :: "'e config \<Rightarrow> gen_state \<Rightarrow> reply \<Rightarrow> 'e action list \<times> gen_event" where
  "inner_messages cfg AwaitRecv (Return msg) = ([], GYield msg)"
| "inner_messages cfg AwaitRecv (Raise e) =
     (if e = TimeoutError then ([Ping], GAwait AwaitPing) else gen_exit e)"
| "inner_messages cfg AwaitPing (Return pong_waiter) =
     ([WaitPong (PING_TIMEOUT cfg)], GAwait AwaitPong)"
| "inner_messages cfg AwaitPing (Raise e) = gen_exit e"
| "inner_messages cfg AwaitPong (Return _) = ([Recv (MESSAGE_TIMEOUT cfg)], GAwait AwaitRecv)"
| "inner_messages cfg AwaitPong (Raise e) = gen_exit e"
| "inner_messages cfg (AwaitClose pending) (Return _) =
     ([], case pending of None \<Rightarrow> GReturn | Some e \<Rightarrow> GRaise e)"
| "inner_messages cfg (AwaitClose pending) (Raise e) = ([], GRaise e)"

subsection \<open>The coroutine \<^verbatim>\<open>listen_for_user_stream\<close>\<close>

text \<open>Its suspension points, with the source line of the \<^verbatim>\<open>await\<close>:
  \<^item> \<open>Connecting\<close>: \<^verbatim>\<open>async with websockets.connect(...)\<close> (line 60);
  \<^item> \<open>SendingAuth\<close>: \<^verbatim>\<open>ws.send\<close> of the authentication request (line 68);
  \<^item> \<open>LoadingMarkets\<close>: \<^verbatim>\<open>get_active_exchange_markets()\<close> (line 70);
  \<^item> \<open>Subscribing rest\<close>: \<^verbatim>\<open>ws.send\<close> of a subscribe request (line 85), with the
    zipped pairs the \<^verbatim>\<open>for\<close> loop has still to visit;
  \<^item> \<open>Receiving g\<close>: inside the generator (lines 120, 124, 125 and 134);
  \<^item> \<open>Leaving pending\<close>: the close that the exit of the \<^verbatim>\<open>async with\<close> block
    awaits (line 60), the block being left normally (\<open>None\<close>) or by an exception
    that is raised again when the close returns (\<open>Some e\<close>);
  \<^item> \<open>Sleeping\<close>: \<^verbatim>\<open>asyncio.sleep(30.0)\<close> (line 107).

  \<open>Finished e\<close> is the task ended by exception \<open>e\<close>.

  What the model takes for granted: \<^verbatim>\<open>get_ws_auth_data\<close> and \<^verbatim>\<open>time.time\<close>
  return; \<^verbatim>\<open>self._trading_pairs\<close> is a list.\<close>

datatype task_state =
    Connecting
  | SendingAuth
  | LoadingMarkets
  | Subscribing "(string \<times> string) list"
  | Receiving gen_state
  | Leaving "exn option"
  | Sleeping
  | Finished exn

text \<open>Calls made before a continuation's own.\<close>

fun prepend :: "'a list \<Rightarrow> 'a list \<times> 's \<Rightarrow> 'a list \<times> 's" where
  "prepend acts (acts', st) = (acts @ acts', st)"

text \<open>The top of \<^verbatim>\<open>while True\<close>.\<close>

definition connect :: "'e config \<Rightarrow> 'e action list \<times> task_state" where
  "connect cfg = ([Connect (BAEE_WS_URL cfg)], Connecting)"

text \<open>The two \<^verbatim>\<open>except\<close> clauses of the loop body.\<close>

definition retry :: "exn \<Rightarrow> 'e action list \<times> task_state" where
  "retry e =
     (if e = CancelledError then ([], Finished CancelledError)
      else ([LogError, Sleep 30], Sleeping))"

text \<open>The exit of \<^verbatim>\<open>async with websockets.connect(...)\<close>, normal or by an
  exception: the context manager calls \<^verbatim>\<open>close()\<close> on the connection and awaits
  it.\<close>

definition leave_session :: "exn option \<Rightarrow> 'e action list \<times> task_state" where
  "leave_session pending = ([Close], Leaving pending)"

text \<open>The \<^verbatim>\<open>for\<close> loop over the zipped pairs, up to its next send; after the last
  pair the \<^verbatim>\<open>async for\<close> starts the generator, which waits for a frame.\<close>

fun subscribe_loop :: "'e config \<Rightarrow> (string \<times> string) list \<Rightarrow> 'e action list \<times> task_state" where
  "subscribe_loop cfg [] = ([Recv (MESSAGE_TIMEOUT cfg)], Receiving AwaitRecv)"
| "subscribe_loop cfg ((trading_pair, quoted_currency) # rest) =
     (case subscribe_request cfg quoted_currency of
        Inl e \<Rightarrow> leave_session (Some e)
      | Inr request \<Rightarrow> ([Send request], Subscribing rest))"

text \<open>One step: the coroutine is resumed with the reply to its pending \<^verbatim>\<open>await\<close>.
  When the iteration ends without an exception the \<^verbatim>\<open>async with\<close> block is left
  normally and, once the context manager's close has returned, the loop starts again.
  An exception that leaves the block reaches the \<^verbatim>\<open>except\<close> clauses once that
  close has returned; an exception raised by the close takes its place. When the loop
  body raises, the generator stays suspended at its \<^verbatim>\<open>yield\<close> and its
  \<^verbatim>\<open>finally\<close> clause is not run by this task.\<close>

fun resume :: "'e config \<Rightarrow> task_state \<Rightarrow> reply \<Rightarrow> 'e action list \<times> task_state" where
  "resume cfg Connecting (Return ws) = ([Send (auth_request cfg)], SendingAuth)"
| "resume cfg Connecting (Raise e) = retry e"
| "resume cfg SendingAuth (Return _) = ([GetMarkets], LoadingMarkets)"
| "resume cfg SendingAuth (Raise e) = leave_session (Some e)"
| "resume cfg LoadingMarkets (Return active_markets_df) =
     (case quoted_currencies active_markets_df (trading_pairs cfg) of
        Inl e \<Rightarrow> leave_session (Some e)
      | Inr qs \<Rightarrow> subscribe_loop cfg (zip (trading_pairs cfg) qs))"
| "resume cfg LoadingMarkets (Raise e) = leave_session (Some e)"
| "resume cfg (Subscribing rest) (Return _) = subscribe_loop cfg rest"
| "resume cfg (Subscribing rest) (Raise e) = leave_session (Some e)"
| "resume cfg (Receiving g) r =
     (case inner_messages cfg g r of
        (acts, GAwait g') \<Rightarrow> (acts, Receiving g')
      | (acts, GYield raw_msg) \<Rightarrow>
          (case on_message cfg raw_msg of
             Inl e \<Rightarrow> prepend acts (leave_session (Some e))
           | Inr puts \<Rightarrow> (acts @ puts @ [Recv (MESSAGE_TIMEOUT cfg)], Receiving AwaitRecv))
      | (acts, GReturn) \<Rightarrow> prepend acts (leave_session None)
      | (acts, GRaise e) \<Rightarrow> prepend acts (leave_session (Some e)))"
| "resume cfg (Leaving pending) (Return _) =
     (case pending of None \<Rightarrow> connect cfg | Some e \<Rightarrow> retry e)"
| "resume cfg (Leaving pending) (Raise e) = retry e"
| "resume cfg Sleeping (Return _) = connect cfg"
| "resume cfg Sleeping (Raise e) = ([], Finished e)"
| "resume cfg (Finished e) r = ([], Finished e)"

text \<open>A run from a suspension point: the calls made and the state reached when the
  replies are used up.\<close>

fun run_from :: "'e config \<Rightarrow> task_state \<Rightarrow> reply list \<Rightarrow> 'e action list \<times> task_state" where
  "run_from cfg st [] = ([], st)"
| "run_from cfg st (r # rs) =
     (case resume cfg st r of (acts, st') \<Rightarrow> prepend acts (run_from cfg st' rs))"

text \<open>The task: it starts at the top of the loop and is then driven by the replies.\<close>

definition listen_for_user_stream :: "'e config \<Rightarrow> reply list \<Rightarrow> 'e action list \<times> task_state" where
  "listen_for_user_stream cfg rs =
     (case connect cfg of (acts, st) \<Rightarrow> prepend acts (run_from cfg st rs))"

subsection \<open>What reaches the output queue\<close>

definition queue_of :: "'e action list \<Rightarrow> 'e list" where
  "queue_of acts = concat (map (\<lambda>a. case a of Put ev \<Rightarrow> [ev] | _ \<Rightarrow> []) acts)"

text \<open>The messages the generator yields during a run, in the order it yields them: the
  replies that answer \<^verbatim>\<open>ws.recv()\<close>.\<close>

fun deliveries :: "'e config \<Rightarrow> task_state \<Rightarrow> reply list \<Rightarrow> pyobj list" where
  "deliveries cfg st [] = []"
| "deliveries cfg st (r # rs) =
     (case (st, r) of
        (Receiving AwaitRecv, Return msg) \<Rightarrow> [msg]
      | _ \<Rightarrow> [])
     @ deliveries cfg (snd (resume cfg st r)) rs"

text \<open>The specification's notion of a frame classified as an update: the decoded frame
  is an object whose \<^verbatim>\<open>event\<close> is \<^verbatim>\<open>"updated"\<close>, its channel names a pair, and
  the decoder accepts it. The result is the event to forward.\<close>

definition classified_update :: "'e config \<Rightarrow> pyobj \<Rightarrow> 'e option" where
  "classified_update cfg msg =
     (case msg of
        Text fr \<Rightarrow>
          (case decoded fr of
             None \<Rightarrow> None
           | Some body \<Rightarrow>
               if py_get body ''event'' = Inr (PStr ''updated'') then
                 (case channel_trading_pair body of
                    Inl e \<Rightarrow> None
                  | Inr pair \<Rightarrow>
                      (case diff_message_from_exchange cfg body (received_at fr)
                              (PDict [(''trading_pair'', PStr pair)]) of
                         Inl e \<Rightarrow> None
                       | Inr ev \<Rightarrow> Some ev))
               else None)
      | _ \<Rightarrow> None)"

text \<open>The frames whose event the queue has room for.\<close>

definition accepted :: "pyobj \<Rightarrow> bool" where
  "accepted msg = (case msg of Text fr \<Rightarrow> \<not> queue_full fr | _ \<Rightarrow> True)"

text \<open>The specification's words for the pair named by a channel: the last
  underscore-delimited segment, which is what follows the last underscore (the whole
  name when there is none).\<close>

definition last_segment :: "string \<Rightarrow> string" where
  "last_segment s = rev (takeWhile (\<lambda>c. c \<noteq> CHR ''_'') (rev s))"

text \<open>A format string with every field filled by the same text.\<close>

definition fill :: "piece list \<Rightarrow> string \<Rightarrow> string" where
  "fill tmpl v = concat (map (\<lambda>p. case p of Lit s \<Rightarrow> s | _ \<Rightarrow> v) tmpl)"

text \<open>The requests sent in the session a trace starts in: the sends up to the next
  call of \<^verbatim>\<open>websockets.connect\<close>.\<close>

fun session_sends :: "'e action list \<Rightarrow> pyval list" where
  "session_sends [] = []"
| "session_sends (Connect url # acts) = []"
| "session_sends (Send request # acts) = request # session_sends acts"
| "session_sends (a # acts) = session_sends acts"

text \<open>The states from which no request is sent before the next connect.\<close>

fun in_session :: "task_state \<Rightarrow> bool" where
  "in_session (Receiving g) = True"
| "in_session (Leaving pending) = True"
| "in_session Sleeping = True"
| "in_session (Finished e) = True"
| "in_session st = False"

subsection \<open>A concrete configuration\<close>

text \<open>The canonical event of the specification: trading pair, receipt time, decoded body.\<close>

record canonical_event =
  trading_pair :: string
  timestamp :: rat
  payload :: pyval

text \<open>Modelled from the spec: the Event Decoder
  (\<^verbatim>\<open>LiquidOrderBook.diff_message_from_exchange\<close> is not in the source file). It
  builds the canonical event from the body, the timestamp and the trading pair of the
  metadata. It is used for concrete runs only; the theorems hold for every decoder.\<close>

definition sample_decoder :: "pyval \<Rightarrow> rat \<Rightarrow> pyval \<Rightarrow> exn + canonical_event" where
  "sample_decoder msg ts metadata =
     (case py_get metadata ''trading_pair'' of
        Inr (PStr p) \<Rightarrow> Inr \<lparr>trading_pair = p, timestamp = ts, payload = msg\<rparr>
      | _ \<Rightarrow> Inl KeyError)"

text \<open>Two pairs quoted in the same currency, and values for the constants: the channel
  template has the one field that the call of \<^verbatim>\<open>format\<close> supplies.\<close>

definition sample_config :: "canonical_event config" where
  "sample_config =
     \<lparr>trading_pairs = [''ETHUSD'', ''BTCUSD''],
      ws_auth_data = PDict [(''token'', PStr ''secret'')],
      BAEE_WS_URL = ''wss://tap.liquid.com/app/LiquidTapClient'',
      WS_AUTH_REQUEST_EVENT = ''quoine:auth_request'',
      WS_PUSHER_SUBSCRIBE_EVENT = ''pusher:subscribe'',
      WS_USER_ACCOUNTS_SUBSCRIPTION =
        [Lit ''user_account_'', Field ''quoted_currency'', Lit ''_orders''],
      MESSAGE_TIMEOUT = 30,
      PING_TIMEOUT = 10,
      diff_message_from_exchange = sample_decoder\<rparr>"

definition sample_markets :: pyobj where
  "sample_markets = DataFrame [(''ETHUSD'', ''USD''), (''BTCUSD'', ''USD'')]"

definition sample_auth :: pyval where
  "sample_auth =
     PDict [(''event'', PStr ''quoine:auth_request''),
            (''data'', PDict [(''token'', PStr ''secret'')])]"

definition sample_subscribe :: pyval where
  "sample_subscribe =
     PDict [(''event'', PStr ''pusher:subscribe''),
            (''data'', PDict [(''channel'', PStr ''user_account_usd_orders'')])]"

text \<open>Replies that bring a session of \<open>sample_config\<close> into its receive loop:
  the connection, the authentication send, the market table and the two subscribe sends.\<close>

definition sample_setup :: "reply list" where
  "sample_setup =
     [Return NoneObj, Return NoneObj, Return sample_markets, Return NoneObj, Return NoneObj]"

text \<open>Frames: an update on the channel of the source's comment, a frame of an event
  type the code does not know, a frame without an event type, and an update without a
  channel.\<close>

definition update_frame :: frame where
  "update_frame =
     \<lparr>decoded = Some (PDict [(''event'', PStr ''updated''),
                             (''channel'', PStr ''user_executions_cash_ethusd'')]),
      received_at = 1600000000, queue_full = False\<rparr>"

definition heartbeat_frame :: frame where
  "heartbeat_frame =
     \<lparr>decoded = Some (PDict [(''event'', PStr ''heartbeat'')]), received_at = 1600000001,
      queue_full = False\<rparr>"

definition no_event_frame :: frame where
  "no_event_frame =
     \<lparr>decoded = Some (PDict [(''channel'', PStr ''user_executions_cash_ethusd'')]),
      received_at = 1600000002, queue_full = False\<rparr>"

definition no_channel_frame :: frame where
  "no_channel_frame =
     \<lparr>decoded = Some (PDict [(''event'', PStr ''updated'')]), received_at = 1600000003,
      queue_full = False\<rparr>"

text \<open>The update of \<open>update_frame\<close>, sent by the venue once more a minute later.\<close>

definition resent_update_frame :: frame where
  "resent_update_frame = update_frame\<lparr>received_at := 1600000060\<rparr>"

section \<open>Properties\<close>

subsection \<open>Evaluation of the concrete configuration\<close>

lemma sample_lower_usd: "lower ''USD'' = ''usd''"
  by (simp add: lower_def lower_char_def)

lemma sample_subscribe_request: "subscribe_request sample_config ''USD'' = Inr sample_subscribe"
  by (simp add: subscribe_request_def channel_name_def sample_config_def sample_subscribe_def
      sample_lower_usd)

lemma sample_auth_request: "auth_request sample_config = sample_auth"
  by (simp add: auth_request_def sample_config_def sample_auth_def)

lemma sample_markets_step:
  "resume sample_config LoadingMarkets (Return sample_markets) =
     ([Send sample_subscribe], Subscribing [(''BTCUSD'', ''USD'')])"
  by (simp add: sample_markets_def sample_config_def subscribe_request_def channel_name_def
      sample_subscribe_def sample_lower_usd)

lemma sample_subscribe_step:
  "resume sample_config (Subscribing [(''BTCUSD'', ''USD'')]) (Return v) =
     ([Send sample_subscribe], Subscribing [])"
  by (simp add: sample_subscribe_request)

lemma sample_constants:
  "BAEE_WS_URL sample_config = ''wss://tap.liquid.com/app/LiquidTapClient''"
  "MESSAGE_TIMEOUT sample_config = 30"
  "PING_TIMEOUT sample_config = 10"
  by (simp_all add: sample_config_def)

lemma sample_setup_run:
  "run_from sample_config Connecting (sample_setup @ rs) =
     prepend [Send sample_auth, GetMarkets, Send sample_subscribe, Send sample_subscribe, Recv 30]
       (run_from sample_config (Receiving AwaitRecv) rs)"
  by (cases "run_from sample_config (Receiving AwaitRecv) rs")
    (simp add: sample_setup_def sample_auth_request sample_markets_step sample_subscribe_request
      sample_constants del: resume.simps(5))

subsection \<open>Runs\<close>

lemma prepend_Nil [simp]: "prepend [] x = x"
  by (cases x) simp

lemma prepend_prepend [simp]: "prepend acts (prepend acts' x) = prepend (acts @ acts') x"
  by (cases x) simp

lemma fst_prepend [simp]: "fst (prepend acts x) = acts @ fst x"
  by (cases x) simp

lemma snd_prepend [simp]: "snd (prepend acts x) = snd x"
  by (cases x) simp

lemma run_from_step:
  "run_from cfg st (r # rs) =
     prepend (fst (resume cfg st r)) (run_from cfg (snd (resume cfg st r)) rs)"
  by (cases "resume cfg st r") simp

lemma run_from_append:
  "run_from cfg st (rs @ rs') =
     prepend (fst (run_from cfg st rs)) (run_from cfg (snd (run_from cfg st rs)) rs')"
proof (induction rs arbitrary: st)
  case Nil
  show ?case by simp
next
  case (Cons r rs)
  show ?case
    by (simp only: append_Cons run_from_step [of cfg st r] Cons.IH fst_prepend snd_prepend
        prepend_prepend)
qed

subsection \<open>The heartbeat\<close>

text \<open>C7: when no frame arrives within the message timeout, a ping is sent; when its
  pong arrives within the ping timeout, the generator goes back to waiting for the next
  frame. Nothing is closed, nothing is logged, no connection is opened and no sleep is
  started: whatever the replies \<open>rs\<close> that follow, the session goes on from the
  state in which it waits for a frame.\<close>

theorem message_timeout_with_pong_keeps_session:
  "run_from cfg (Receiving AwaitRecv) (Raise TimeoutError # Return pong_waiter # Return pong # rs) =
     prepend [Ping, WaitPong (PING_TIMEOUT cfg), Recv (MESSAGE_TIMEOUT cfg)]
       (run_from cfg (Receiving AwaitRecv) rs)"
  by (simp add: run_from_step)

text \<open>C1, as claimed, fails: after a ping whose pong does not arrive in time the
  generator logs a warning and returns, the \<^verbatim>\<open>async for\<close> loop ends without an
  exception, and the \<^verbatim>\<open>while True\<close> loop connects again as soon as the two
  closes have returned. The 30-second sleep belongs to the \<^verbatim>\<open>except Exception\<close>
  clause, which is not entered. In the run below no call of \<^verbatim>\<open>asyncio.sleep\<close>
  is made at all.\<close>

theorem ping_timeout_sleep_counterexample:
  "listen_for_user_stream sample_config
     (sample_setup @
      [Raise TimeoutError, Return NoneObj, Raise TimeoutError, Return NoneObj, Return NoneObj]) =
     ([Connect ''wss://tap.liquid.com/app/LiquidTapClient'',
       Send sample_auth, GetMarkets, Send sample_subscribe, Send sample_subscribe,
       Recv 30, Ping, WaitPong 10, LogWarning, Close, Close,
       Connect ''wss://tap.liquid.com/app/LiquidTapClient''], Connecting)
   \<and> Sleep 30 \<notin> set (fst (listen_for_user_stream sample_config
         (sample_setup @
          [Raise TimeoutError, Return NoneObj, Raise TimeoutError, Return NoneObj,
           Return NoneObj])))"
  by (simp add: listen_for_user_stream_def connect_def sample_setup_run sample_constants
      gen_exit_def leave_session_def sample_auth_def sample_subscribe_def)

text \<open>C1, amended: for every session whose heartbeat ping receives no pong within the
  ping timeout, the frame sequence terminates and the session ends (a warning is
  logged, the generator closes the socket and the connection's context manager closes it
  again), and once both closes have returned the supervisor restarts from the connect
  step at once, without the reconnect delay.\<close>

theorem ping_timeout_reconnects_at_once:
  "run_from cfg (Receiving AwaitRecv)
     (Raise TimeoutError # Return pong_waiter # Raise TimeoutError #
      Return released # Return left # rs) =
     prepend [Ping, WaitPong (PING_TIMEOUT cfg), LogWarning, Close, Close,
              Connect (BAEE_WS_URL cfg)]
       (run_from cfg Connecting rs)"
  by (simp add: run_from_step gen_exit_def leave_session_def connect_def)

subsection \<open>Classification of one frame\<close>

lemma falsy_not_updated: "\<not> truthy v \<Longrightarrow> v \<noteq> PStr ''updated''"
  by (cases v) auto

text \<open>C3: a frame whose decoded body has no \<^verbatim>\<open>event\<close> field (the lookup gives
  \<^verbatim>\<open>None\<close>) or an empty one (any value that Python counts as false) makes the
  classification raise \<^verbatim>\<open>ValueError\<close>. Nothing is put on the queue; the session is
  left (the connection is closed), the error is logged, and after the sleep the
  supervisor connects again. The replies after the frame are those to the close and to
  the sleep.\<close>

theorem frame_without_event_fails_session:
  assumes "decoded fr = Some body"
    and "py_get body ''event'' = Inr event_type"
    and "\<not> truthy event_type"
  shows "on_message cfg (Text fr) = Inl ValueError \<and>
         run_from cfg (Receiving AwaitRecv)
           (Return (Text fr) # Return released # Return woken # rs) =
           prepend [Close, LogError, Sleep 30, Connect (BAEE_WS_URL cfg)]
             (run_from cfg Connecting rs)"
proof -
  have msg: "on_message cfg (Text fr) = Inl ValueError"
    using assms falsy_not_updated [of event_type] by (simp add: on_message_def ujson_loads_def)
  then show ?thesis
    by (simp add: run_from_step leave_session_def retry_def connect_def)
qed

theorem frame_without_event_fails_session_witness:
  "decoded no_event_frame = Some (PDict [(''channel'', PStr ''user_executions_cash_ethusd'')]) \<and>
   py_get (PDict [(''channel'', PStr ''user_executions_cash_ethusd'')]) ''event'' = Inr PNone \<and>
   \<not> truthy PNone \<and>
   on_message sample_config (Text no_event_frame) = Inl ValueError \<and>
   run_from sample_config (Receiving AwaitRecv)
     [Return (Text no_event_frame), Return NoneObj, Return NoneObj] =
     ([Close, LogError, Sleep 30, Connect ''wss://tap.liquid.com/app/LiquidTapClient''],
      Connecting)"
proof -
  have h1: "decoded no_event_frame =
      Some (PDict [(''channel'', PStr ''user_executions_cash_ethusd'')])"
    by (simp add: no_event_frame_def)
  have h2: "py_get (PDict [(''channel'', PStr ''user_executions_cash_ethusd'')]) ''event'' =
      Inr PNone"
    by simp
  have h3: "\<not> truthy PNone"
    by simp
  show ?thesis
    using h1 h2 h3 frame_without_event_fails_session [OF h1 h2 h3, of sample_config NoneObj NoneObj "[]"]
    by (simp add: sample_constants del: run_from.simps(2))
qed

text \<open>C8: a frame whose \<^verbatim>\<open>event\<close> field is present, non-empty (true for Python)
  and not \<^verbatim>\<open>"updated"\<close> puts nothing on the queue and changes nothing else: the
  generator waits for the next frame, and the run goes on from the state it was in
  before the frame, as it would have without it.\<close>

theorem unmodelled_event_is_ignored:
  assumes "decoded fr = Some body"
    and "py_get body ''event'' = Inr event_type"
    and "truthy event_type"
    and "event_type \<noteq> PStr ''updated''"
  shows "on_message cfg (Text fr) = Inr [] \<and>
         run_from cfg (Receiving AwaitRecv) (Return (Text fr) # rs) =
           prepend [Recv (MESSAGE_TIMEOUT cfg)] (run_from cfg (Receiving AwaitRecv) rs)"
proof -
  have msg: "on_message cfg (Text fr) = Inr []"
    using assms by (simp add: on_message_def ujson_loads_def)
  then show ?thesis
    by (simp add: run_from_step)
qed

theorem unmodelled_event_is_ignored_witness:
  "decoded heartbeat_frame = Some (PDict [(''event'', PStr ''heartbeat'')]) \<and>
   py_get (PDict [(''event'', PStr ''heartbeat'')]) ''event'' = Inr (PStr ''heartbeat'') \<and>
   truthy (PStr ''heartbeat'') \<and>
   PStr ''heartbeat'' \<noteq> PStr ''updated'' \<and>
   on_message sample_config (Text heartbeat_frame) = Inr [] \<and>
   run_from sample_config (Receiving AwaitRecv) [Return (Text heartbeat_frame)] =
     ([Recv 30], Receiving AwaitRecv)"
proof -
  have h1: "decoded heartbeat_frame = Some (PDict [(''event'', PStr ''heartbeat'')])"
    by (simp add: heartbeat_frame_def)
  have h2: "py_get (PDict [(''event'', PStr ''heartbeat'')]) ''event'' = Inr (PStr ''heartbeat'')"
    by simp
  have h3: "truthy (PStr ''heartbeat'')"
    by simp
  have h4: "PStr ''heartbeat'' \<noteq> PStr ''updated''"
    by simp
  show ?thesis
    using h1 h2 h3 h4 unmodelled_event_is_ignored [OF h1 h2 h3 h4, of sample_config "[]"]
    by (simp add: sample_constants)
qed

text \<open>C10: an update frame without a \<^verbatim>\<open>channel\<close> key: \<^verbatim>\<open>get('channel')\<close> gives
  \<^verbatim>\<open>None\<close>, which has no \<^verbatim>\<open>split\<close>, so the classification raises
  \<^verbatim>\<open>AttributeError\<close>. The frame is not skipped: the session is left (the connection
  is closed), the error is logged, and the supervisor connects again after the sleep
  of 30 seconds. The replies after the frame are those to the close and to the sleep.\<close>

theorem update_without_channel_fails_session:
  assumes "decoded fr = Some (PDict kvs)"
    and "map_of kvs ''event'' = Some (PStr ''updated'')"
    and "map_of kvs ''channel'' = None"
  shows "on_message cfg (Text fr) = Inl AttributeError \<and>
         run_from cfg (Receiving AwaitRecv)
           (Return (Text fr) # Return released # Return woken # rs) =
           prepend [Close, LogError, Sleep 30, Connect (BAEE_WS_URL cfg)]
             (run_from cfg Connecting rs)"
proof -
  have msg: "on_message cfg (Text fr) = Inl AttributeError"
    using assms by (simp add: on_message_def ujson_loads_def channel_trading_pair_def)
  then show ?thesis
    by (simp add: run_from_step leave_session_def retry_def connect_def)
qed

theorem update_without_channel_fails_session_witness:
  "decoded no_channel_frame = Some (PDict [(''event'', PStr ''updated'')]) \<and>
   map_of [(''event'', PStr ''updated'')] ''event'' = Some (PStr ''updated'') \<and>
   map_of [(''event'', PStr ''updated'')] ''channel'' = None \<and>
   on_message sample_config (Text no_channel_frame) = Inl AttributeError \<and>
   run_from sample_config (Receiving AwaitRecv)
     [Return (Text no_channel_frame), Return NoneObj, Return NoneObj] =
     ([Close, LogError, Sleep 30, Connect ''wss://tap.liquid.com/app/LiquidTapClient''],
      Connecting)"
proof -
  have h1: "decoded no_channel_frame = Some (PDict [(''event'', PStr ''updated'')])"
    by (simp add: no_channel_frame_def)
  have h2: "map_of [(''event'', PStr ''updated'')] ''event'' = Some (PStr ''updated'')"
    by simp
  have h3: "map_of [(''event'', PStr ''updated'')] ''channel'' = None"
    by simp
  show ?thesis
    using h1 h2 h3
      update_without_channel_fails_session [OF h1 h2 h3, of sample_config NoneObj NoneObj "[]"]
    by (simp add: sample_constants del: run_from.simps(2))
qed

text \<open>What \<^verbatim>\<open>split('_')[-1]\<close> computes is the last underscore-delimited segment.\<close>

lemma split_str_shape:
  "split_str sep s \<noteq> [] \<and> (tl (split_str sep s) = [] \<longleftrightarrow> sep \<notin> set s) \<and>
   (sep \<notin> set s \<longrightarrow> split_str sep s = [s])"
  by (induction s) (auto split: list.splits)

lemma last_split_str:
  "last (split_str sep s) = rev (takeWhile (\<lambda>c. c \<noteq> sep) (rev s))"
proof (induction s)
  case Nil
  show ?case by simp
next
  case (Cons c cs)
  show ?case
  proof (cases "c = sep")
    case True
    then show ?thesis
      using Cons.IH split_str_shape [of sep cs] by (simp add: takeWhile_append)
  next
    case False
    show ?thesis
    proof (cases "sep \<in> set cs")
      case True
      then obtain w x ws where "split_str sep cs = w # x # ws"
        using split_str_shape [of sep cs] by (cases "split_str sep cs") (auto simp: neq_Nil_conv)
      then show ?thesis
        using Cons.IH False True by (auto simp: takeWhile_append)
    next
      case notin: False
      then have "split_str sep cs = [cs]"
        using split_str_shape [of sep cs] by simp
      then show ?thesis
        using False notin by (simp add: takeWhile_append)
    qed
  qed
qed

lemma channel_trading_pair_segment:
  assumes "map_of kvs ''channel'' = Some (PStr channel)"
  shows "channel_trading_pair (PDict kvs) = Inr (upper (last_segment channel))"
  using assms split_str_shape [of "CHR ''_''" channel]
  by (simp add: channel_trading_pair_def last_item_def last_split_str last_segment_def)

text \<open>C2: for a frame whose \<^verbatim>\<open>event\<close> is \<^verbatim>\<open>"updated"\<close>, what is put on the queue
  is the decoder's event for the frame, its receipt time and the metadata
  \<^verbatim>\<open>{"trading_pair": p}\<close>, where \<open>p\<close> is the last underscore-delimited segment of
  the frame's channel name in upper case. (When the decoder raises, or the queue is
  full, the exception leaves the loop body and nothing is put.)\<close>

theorem updated_frame_trading_pair:
  assumes "decoded fr = Some (PDict kvs)"
    and "map_of kvs ''event'' = Some (PStr ''updated'')"
    and "map_of kvs ''channel'' = Some (PStr channel)"
  shows "on_message cfg (Text fr) =
           (case diff_message_from_exchange cfg (PDict kvs) (received_at fr)
                   (PDict [(''trading_pair'', PStr (upper (last_segment channel)))]) of
              Inl e \<Rightarrow> Inl e
            | Inr ev \<Rightarrow> if queue_full fr then Inl QueueFull else Inr [Put ev])"
  using assms channel_trading_pair_segment [of kvs channel]
  by (simp add: on_message_def ujson_loads_def)

text \<open>The frame of the specification's example, with the decoder modelled from the
  specification: the event on the queue has the trading pair \<^verbatim>\<open>ETHUSD\<close>.\<close>

theorem updated_frame_trading_pair_witness:
  "decoded update_frame =
     Some (PDict [(''event'', PStr ''updated''),
                  (''channel'', PStr ''user_executions_cash_ethusd'')]) \<and>
   map_of [(''event'', PStr ''updated''), (''channel'', PStr ''user_executions_cash_ethusd'')]
     ''event'' = Some (PStr ''updated'') \<and>
   map_of [(''event'', PStr ''updated''), (''channel'', PStr ''user_executions_cash_ethusd'')]
     ''channel'' = Some (PStr ''user_executions_cash_ethusd'') \<and>
   upper (last_segment ''user_executions_cash_ethusd'') = ''ETHUSD'' \<and>
   on_message sample_config (Text update_frame) =
     Inr [Put \<lparr>trading_pair = ''ETHUSD'', timestamp = 1600000000,
               payload = PDict [(''event'', PStr ''updated''),
                                (''channel'', PStr ''user_executions_cash_ethusd'')]\<rparr>]"
proof -
  have h1: "decoded update_frame =
      Some (PDict [(''event'', PStr ''updated''),
                   (''channel'', PStr ''user_executions_cash_ethusd'')])"
    by (simp add: update_frame_def)
  have h2: "map_of [(''event'', PStr ''updated''),
        (''channel'', PStr ''user_executions_cash_ethusd'')] ''event'' = Some (PStr ''updated'')"
    by simp
  have h3: "map_of [(''event'', PStr ''updated''),
        (''channel'', PStr ''user_executions_cash_ethusd'')] ''channel'' =
      Some (PStr ''user_executions_cash_ethusd'')"
    by simp
  have seg: "upper (last_segment ''user_executions_cash_ethusd'') = ''ETHUSD''"
    by (simp add: last_segment_def upper_def upper_char_def)
  have at: "received_at update_frame = 1600000000" "\<not> queue_full update_frame"
    by (simp_all add: update_frame_def)
  have dec: "diff_message_from_exchange sample_config = sample_decoder"
    by (simp add: sample_config_def)
  show ?thesis
    using h1 h2 h3 seg updated_frame_trading_pair [OF h1 h2 h3, of sample_config]
    by (simp add: at dec sample_decoder_def)
qed

subsection \<open>The output queue\<close>

lemma queue_of_append: "queue_of (acts @ acts') = queue_of acts @ queue_of acts'"
  by (simp add: queue_of_def)

lemma queue_of_simps:
  "queue_of [] = []"
  "queue_of (Put ev # acts) = ev # queue_of acts"
  "queue_of (Connect u # acts) = queue_of acts"
  "queue_of (Send p # acts) = queue_of acts"
  "queue_of (GetMarkets # acts) = queue_of acts"
  "queue_of (Recv t # acts) = queue_of acts"
  "queue_of (Ping # acts) = queue_of acts"
  "queue_of (WaitPong t # acts) = queue_of acts"
  "queue_of (Close # acts) = queue_of acts"
  "queue_of (LogWarning # acts) = queue_of acts"
  "queue_of (LogError # acts) = queue_of acts"
  "queue_of (Sleep t # acts) = queue_of acts"
  by (simp_all add: queue_of_def)

lemma queue_of_prepend: "queue_of (fst (prepend acts x)) = queue_of acts @ queue_of (fst x)"
  by (simp add: queue_of_append)

lemma queue_of_retry: "queue_of (fst (retry e)) = []"
  by (simp add: retry_def queue_of_simps)

lemma queue_of_leave_session: "queue_of (fst (leave_session pending)) = []"
  by (simp add: leave_session_def queue_of_simps)

lemma queue_of_connect: "queue_of (fst (connect cfg)) = []"
  by (simp add: connect_def queue_of_simps)

lemma queue_of_subscribe_loop: "queue_of (fst (subscribe_loop cfg ps)) = []"
  by (cases "(cfg, ps)" rule: subscribe_loop.cases)
    (simp_all add: queue_of_simps queue_of_leave_session split: sum.splits)

lemma queue_of_gen_exit: "queue_of (fst (gen_exit e)) = []"
  by (simp add: gen_exit_def queue_of_simps)

lemma on_message_classified:
  "queue_of (case on_message cfg msg of Inl e \<Rightarrow> [] | Inr puts \<Rightarrow> puts) =
     (if accepted msg then (case classified_update cfg msg of None \<Rightarrow> [] | Some ev \<Rightarrow> [ev])
      else [])"
  by (simp add: on_message_def classified_update_def accepted_def ujson_loads_def queue_of_simps
      split: pyobj.splits option.splits sum.splits)

lemma queue_of_resume:
  "queue_of (fst (resume cfg st r)) =
     List.map_filter (classified_update cfg)
       (filter accepted
          (case (st, r) of (Receiving AwaitRecv, Return msg) \<Rightarrow> [msg] | _ \<Rightarrow> []))"
proof (cases st)
  case (Receiving g)
  show ?thesis
  proof (cases r)
    case (Return msg)
    show ?thesis
    proof (cases g)
      case AwaitRecv
      show ?thesis
        using on_message_classified [of cfg msg]
        by (auto simp add: Receiving Return AwaitRecv queue_of_append queue_of_simps
            queue_of_leave_session List.map_filter_simps
            split: sum.splits option.splits if_splits)
    next
      case (AwaitClose pending)
      show ?thesis
        by (cases pending)
          (simp_all add: Receiving Return AwaitClose queue_of_simps queue_of_leave_session
            List.map_filter_simps)
    qed (simp_all add: Receiving Return queue_of_simps List.map_filter_simps)
  next
    case (Raise e)
    show ?thesis
      by (cases g)
        (simp_all add: Receiving Raise queue_of_simps gen_exit_def queue_of_leave_session
          List.map_filter_simps)
  qed
next
  case (Leaving pending)
  show ?thesis
    by (cases r; cases pending)
      (simp_all add: Leaving queue_of_retry queue_of_connect List.map_filter_simps)
qed (cases r; simp add: queue_of_simps queue_of_retry queue_of_leave_session
      queue_of_subscribe_loop queue_of_connect List.map_filter_simps split: sum.splits)+

lemma map_filter_append: "List.map_filter f (xs @ ys) = List.map_filter f xs @ List.map_filter f ys"
  by (simp add: List.map_filter_def)

lemma queue_of_run_from:
  "queue_of (fst (run_from cfg st rs)) =
     List.map_filter (classified_update cfg) (filter accepted (deliveries cfg st rs))"
proof (induction rs arbitrary: st)
  case Nil
  show ?case by (simp add: queue_of_simps List.map_filter_simps)
next
  case (Cons r rs)
  show ?case
    by (simp only: run_from_step queue_of_prepend Cons.IH queue_of_resume deliveries.simps
        map_filter_append filter_append)
qed

lemma sample_update_event:
  "on_message sample_config (Text (update_frame\<lparr>received_at := t\<rparr>)) =
     Inr [Put \<lparr>trading_pair = ''ETHUSD'', timestamp = t,
               payload = PDict [(''event'', PStr ''updated''),
                                (''channel'', PStr ''user_executions_cash_ethusd'')]\<rparr>]"
  by (simp add: on_message_def ujson_loads_def update_frame_def channel_trading_pair_def
      last_item_def upper_def upper_char_def sample_config_def sample_decoder_def)

text \<open>C5, as claimed, fails in its last part: frames are forwarded as they come and
  nothing is remembered from one session to the next, so an update that the venue sends
  again after a reconnect is put on the queue again. Below the connection is closed
  after the update, the supervisor reconnects, and the venue sends the same update once
  more: the queue holds it twice.\<close>

theorem resent_update_counterexample:
  "queue_of (fst (listen_for_user_stream sample_config
      (sample_setup @
       [Return (Text update_frame), Raise ConnectionClosed, Return NoneObj, Return NoneObj] @
       sample_setup @ [Return (Text resent_update_frame)]))) =
     [\<lparr>trading_pair = ''ETHUSD'', timestamp = 1600000000,
       payload = PDict [(''event'', PStr ''updated''),
                        (''channel'', PStr ''user_executions_cash_ethusd'')]\<rparr>,
      \<lparr>trading_pair = ''ETHUSD'', timestamp = 1600000060,
       payload = PDict [(''event'', PStr ''updated''),
                        (''channel'', PStr ''user_executions_cash_ethusd'')]\<rparr>]"
proof -
  have first: "on_message sample_config (Text update_frame) =
      Inr [Put \<lparr>trading_pair = ''ETHUSD'', timestamp = 1600000000,
                payload = PDict [(''event'', PStr ''updated''),
                                 (''channel'', PStr ''user_executions_cash_ethusd'')]\<rparr>]"
    using sample_update_event [of 1600000000] by (simp add: update_frame_def)
  have second: "on_message sample_config (Text resent_update_frame) =
      Inr [Put \<lparr>trading_pair = ''ETHUSD'', timestamp = 1600000060,
                payload = PDict [(''event'', PStr ''updated''),
                                 (''channel'', PStr ''user_executions_cash_ethusd'')]\<rparr>]"
    using sample_update_event [of 1600000060] by (simp add: resent_update_frame_def)
  show ?thesis
    by (simp add: listen_for_user_stream_def connect_def sample_setup_run first second
        gen_exit_def leave_session_def queue_of_simps queue_of_append sample_constants)
qed

text \<open>C5, amended: over a whole run, reconnects included, the events put on the output
  queue are exactly the events of the yielded frames that classify as updates and that
  the queue has room for, in the order in which the generator yielded the frames; a
  yielded frame contributes one event or none, so nothing is reordered and no yielded
  frame is forwarded twice. Frames are not compared with earlier ones: an update that
  the venue sends again is forwarded again.\<close>

theorem queue_in_classification_order:
  "queue_of (fst (listen_for_user_stream cfg rs)) =
     List.map_filter (classified_update cfg) (filter accepted (deliveries cfg Connecting rs)) \<and>
   length (queue_of (fst (listen_for_user_stream cfg rs))) \<le>
     length (deliveries cfg Connecting rs)"
proof -
  have "queue_of (fst (listen_for_user_stream cfg rs)) =
      List.map_filter (classified_update cfg) (filter accepted (deliveries cfg Connecting rs))"
    by (simp add: listen_for_user_stream_def connect_def queue_of_append queue_of_simps
        queue_of_run_from)
  moreover have "length (List.map_filter (classified_update cfg)
      (filter accepted (deliveries cfg Connecting rs))) \<le> length (deliveries cfg Connecting rs)"
    by (simp add: List.map_filter_def le_trans [OF length_filter_le length_filter_le])
  ultimately show ?thesis
    by simp
qed

subsection \<open>Cancellation\<close>

text \<open>C6, as claimed, fails in one part: when the task is cancelled while the generator
  waits for a frame, \<^verbatim>\<open>ws.close()\<close> is called twice, first by the
  \<^verbatim>\<open>finally\<close> clause of \<^verbatim>\<open>_inner_messages\<close> and then by the exit of
  \<^verbatim>\<open>async with websockets.connect(...)\<close>; the task ends when both have
  returned.\<close>

theorem cancel_while_receiving_counterexample:
  "listen_for_user_stream sample_config
     (sample_setup @ [Raise CancelledError, Return NoneObj, Return NoneObj]) =
     ([Connect ''wss://tap.liquid.com/app/LiquidTapClient'',
       Send sample_auth, GetMarkets, Send sample_subscribe, Send sample_subscribe,
       Recv 30, Close, Close], Finished CancelledError)
   \<and> length (filter (\<lambda>a. a = Close)
        (fst (listen_for_user_stream sample_config
           (sample_setup @ [Raise CancelledError, Return NoneObj, Return NoneObj])))) = 2"
  by (simp add: listen_for_user_stream_def connect_def sample_setup_run sample_constants
      gen_exit_def leave_session_def retry_def sample_auth_def sample_subscribe_def)

text \<open>C6, amended: if the task is cancelled at any suspension point, the closes of the
  generator and of the connection's context manager included, and the closes awaited
  on the way out return, the task ends with \<^verbatim>\<open>CancelledError\<close>: the retry clause
  does not catch it, nothing is logged, no sleep is started and no connection is
  opened, and the ended task makes no further call. On the way out
  \<^verbatim>\<open>ws.close()\<close> is called once when the task is cancelled while it sends the
  authentication request, loads the markets or sends a subscribe request; twice (by the
  generator's \<^verbatim>\<open>finally\<close> clause, then by the context manager) when it is cancelled
  while it waits for a frame, sends a ping or waits for the pong; once more (by the
  context manager) when it is cancelled in the generator's close; and not again when
  it is cancelled in the context manager's close. While it connects or sleeps no
  connection is open and nothing is closed.\<close>

theorem cancellation_ends_task:
  "run_from cfg Connecting [Raise CancelledError] = ([], Finished CancelledError) \<and>
   run_from cfg SendingAuth [Raise CancelledError, Return left] =
     ([Close], Finished CancelledError) \<and>
   run_from cfg LoadingMarkets [Raise CancelledError, Return left] =
     ([Close], Finished CancelledError) \<and>
   run_from cfg (Subscribing rest) [Raise CancelledError, Return left] =
     ([Close], Finished CancelledError) \<and>
   run_from cfg (Receiving AwaitRecv) [Raise CancelledError, Return released, Return left] =
     ([Close, Close], Finished CancelledError) \<and>
   run_from cfg (Receiving AwaitPing) [Raise CancelledError, Return released, Return left] =
     ([Close, Close], Finished CancelledError) \<and>
   run_from cfg (Receiving AwaitPong) [Raise CancelledError, Return released, Return left] =
     ([Close, Close], Finished CancelledError) \<and>
   run_from cfg (Receiving (AwaitClose pending)) [Raise CancelledError, Return left] =
     ([Close], Finished CancelledError) \<and>
   run_from cfg (Leaving pending) [Raise CancelledError] = ([], Finished CancelledError) \<and>
   run_from cfg Sleeping [Raise CancelledError] = ([], Finished CancelledError) \<and>
   run_from cfg (Finished CancelledError) rs = ([], Finished CancelledError)"
proof -
  have ended: "run_from cfg (Finished CancelledError) rs = ([], Finished CancelledError)"
    by (induction rs) simp_all
  show ?thesis
    using ended by (simp add: gen_exit_def leave_session_def retry_def)
qed

subsection \<open>Authentication and subscriptions\<close>

lemma format_kw_fill: "format_kw tmpl [(k, v)] = Inr r \<Longrightarrow> r = fill tmpl v"
proof (induction tmpl arbitrary: r)
  case Nil
  then show ?case by (simp add: fill_def)
next
  case (Cons p ps)
  then show ?case
    by (cases p) (auto simp: fill_def split: sum.splits if_splits)
qed

text \<open>C9, as claimed, fails: the channel name is the template filled with the
  lower-cased quote currency only, since \<^verbatim>\<open>quoted_currency\<close> is the one keyword
  passed to \<^verbatim>\<open>format\<close>. The pairs \<^verbatim>\<open>ETHUSD\<close> and \<^verbatim>\<open>BTCUSD\<close>, both
  quoted in \<^verbatim>\<open>USD\<close>, are subscribed to the same channel, whose name contains
  neither pair.\<close>

theorem channel_without_pair_counterexample:
  "listen_for_user_stream sample_config sample_setup =
     ([Connect ''wss://tap.liquid.com/app/LiquidTapClient'',
       Send (PDict [(''event'', PStr ''quoine:auth_request''),
                    (''data'', PDict [(''token'', PStr ''secret'')])]),
       GetMarkets,
       Send (PDict [(''event'', PStr ''pusher:subscribe''),
                    (''data'', PDict [(''channel'', PStr ''user_account_usd_orders'')])]),
       Send (PDict [(''event'', PStr ''pusher:subscribe''),
                    (''data'', PDict [(''channel'', PStr ''user_account_usd_orders'')])]),
       Recv 30], Receiving AwaitRecv)"
  using sample_setup_run [of "[]"]
  by (simp add: listen_for_user_stream_def connect_def sample_constants sample_auth_def
      sample_subscribe_def del: run_from.simps(2))

text \<open>C9, amended: every subscribe request sent for a trading pair names the channel
  obtained by filling each field of the channel-name template with the lower-cased
  quote currency of the pair; the trading pair itself is not part of the name.\<close>

theorem subscribe_channel_from_quote_currency:
  assumes "channel_name cfg quoted_currency = Inr channel"
  shows "channel = fill (WS_USER_ACCOUNTS_SUBSCRIPTION cfg) (lower quoted_currency) \<and>
         subscribe_loop cfg ((pair, quoted_currency) # rest) =
           ([Send (PDict [(''event'', PStr (WS_PUSHER_SUBSCRIBE_EVENT cfg)),
                          (''data'', PDict [(''channel'', PStr channel)])])],
            Subscribing rest)"
  using assms format_kw_fill [of "WS_USER_ACCOUNTS_SUBSCRIPTION cfg" "''quoted_currency''"
      "lower quoted_currency" channel]
  by (simp add: channel_name_def subscribe_request_def)


theorem subscribe_channel_from_quote_currency_witness:
  "channel_name sample_config ''USD'' = Inr ''user_account_usd_orders'' \<and>
   ''user_account_usd_orders'' =
     fill (WS_USER_ACCOUNTS_SUBSCRIPTION sample_config) (lower ''USD'') \<and>
   subscribe_loop sample_config [(''ETHUSD'', ''USD'')] =
     ([Send (PDict [(''event'', PStr ''pusher:subscribe''),
                    (''data'', PDict [(''channel'', PStr ''user_account_usd_orders'')])])],
      Subscribing [])"
proof -
  have h: "channel_name sample_config ''USD'' = Inr ''user_account_usd_orders''"
    by (simp add: channel_name_def sample_config_def sample_lower_usd)
  have ev: "WS_PUSHER_SUBSCRIBE_EVENT sample_config = ''pusher:subscribe''"
    by (simp add: sample_config_def)
  show ?thesis
    using h subscribe_channel_from_quote_currency [OF h, of "''ETHUSD''" "[]"]
    by (simp add: ev del: subscribe_loop.simps)
qed

text \<open>C4, as claimed, fails: the quote currencies of all configured pairs are looked up
  before the first subscribe request is built, so one pair that the market table does
  not know makes the session fail with no subscribe request sent, also for the pairs
  that resolve. Below \<^verbatim>\<open>ETHUSD\<close> resolves and \<^verbatim>\<open>BTCUSD\<close> does not.\<close>

theorem unresolved_pair_counterexample:
  "loc (DataFrame [(''ETHUSD'', ''USD'')]) ''ETHUSD'' = Inr ''USD'' \<and>
   listen_for_user_stream sample_config
     [Return NoneObj, Return NoneObj, Return (DataFrame [(''ETHUSD'', ''USD'')]),
      Return NoneObj] =
     ([Connect ''wss://tap.liquid.com/app/LiquidTapClient'', Send sample_auth, GetMarkets,
       Close, LogError, Sleep 30], Sleeping)"
  by (simp add: listen_for_user_stream_def connect_def auth_request_def sample_auth_def
      leave_session_def retry_def sample_config_def)

lemma quoted_currencies_all:
  "list_all2 (\<lambda>p q. loc df p = Inr q) ps qs \<Longrightarrow> quoted_currencies df ps = Inr qs"
  by (induction ps qs rule: list_all2_induct) simp_all

lemma subscribe_loop_run:
  assumes "list_all2 (\<lambda>q request. subscribe_request cfg q = Inr request) qs requests"
    and "length ps = length qs"
    and "length sent = length qs"
  shows "prepend (fst (subscribe_loop cfg (zip ps qs)))
           (run_from cfg (snd (subscribe_loop cfg (zip ps qs))) (map Return sent @ rs)) =
         prepend (map Send requests @ [Recv (MESSAGE_TIMEOUT cfg)])
           (run_from cfg (Receiving AwaitRecv) rs)"
  using assms
proof (induction qs requests arbitrary: ps sent rule: list_all2_induct)
  case Nil
  then show ?case by simp
next
  case (Cons q qs request requests)
  from Cons.prems obtain p ps' where ps: "ps = p # ps'" and ps': "length ps' = length qs"
    by (cases ps) auto
  from Cons.prems obtain v sent' where sent: "sent = v # sent'" and sent': "length sent' = length qs"
    by (cases sent) auto
  show ?case
    using Cons.hyps(1) Cons.IH [OF ps' sent']
    by (simp add: ps sent run_from_step del: run_from.simps(2))
qed

lemma on_message_puts:
  "on_message cfg msg = Inr puts \<Longrightarrow> puts = [] \<or> (\<exists>ev. puts = [Put ev])"
  by (auto simp: on_message_def split: pyobj.splits sum.splits if_splits)

lemma session_sends_step:
  assumes "in_session st"
  shows "session_sends (fst (resume cfg st r) @ acts) =
           (if in_session (snd (resume cfg st r)) then session_sends acts else [])"
proof (cases st)
  case (Receiving g)
  show ?thesis
  proof (cases r)
    case (Return msg)
    show ?thesis
    proof (cases g)
      case AwaitRecv
      show ?thesis
      proof (cases "on_message cfg msg")
        case (Inl e)
        then show ?thesis
          by (simp add: Receiving Return AwaitRecv leave_session_def)
      next
        case (Inr puts)
        then show ?thesis
          using on_message_puts [OF Inr] by (auto simp: Receiving Return AwaitRecv)
      qed
    next
      case (AwaitClose pending)
      show ?thesis
        by (cases pending) (simp_all add: Receiving Return AwaitClose leave_session_def)
    qed (simp_all add: Receiving Return)
  next
    case (Raise e)
    show ?thesis
      by (cases g) (simp_all add: Receiving Raise gen_exit_def leave_session_def)
  qed
next
  case (Leaving pending)
  show ?thesis
    by (cases r; cases pending) (simp_all add: Leaving retry_def connect_def)
next
  case Sleeping
  show ?thesis
    by (cases r) (simp_all add: Sleeping connect_def)
next
  case (Finished e)
  show ?thesis
    by (simp add: Finished)
qed (use assms in simp_all)

lemma session_sends_quiet:
  "in_session st \<Longrightarrow> session_sends (fst (run_from cfg st rs)) = []"
proof (induction rs arbitrary: st)
  case Nil
  show ?case by simp
next
  case (Cons r rs)
  show ?case
    using Cons.IH [of "snd (resume cfg st r)"] session_sends_step [OF Cons.prems, of cfg r]
    by (simp add: run_from_step del: run_from.simps(2))
qed

text \<open>C4, amended: in every session in which the market table resolves the quote
  currency of every configured pair (and the channel names can be built and the sends
  return), the requests sent before the next connect are exactly one authentication
  request, first, and then one subscribe request for each configured pair, in the
  order of the pairs.\<close>

theorem auth_then_subscriptions_in_order:
  assumes "list_all2 (\<lambda>pair q. loc df pair = Inr q) (trading_pairs cfg) qs"
    and "list_all2 (\<lambda>q request. subscribe_request cfg q = Inr request) qs requests"
    and "length sent = length qs"
  shows "run_from cfg Connecting (Return ws # Return authed # Return df # map Return sent @ rs) =
           prepend ([Send (auth_request cfg), GetMarkets] @ map Send requests @
                    [Recv (MESSAGE_TIMEOUT cfg)])
             (run_from cfg (Receiving AwaitRecv) rs) \<and>
         session_sends
           (fst (run_from cfg Connecting
                   (Return ws # Return authed # Return df # map Return sent @ rs))) =
           auth_request cfg # requests"
proof -
  have len: "length (trading_pairs cfg) = length qs"
    using assms(1) by (rule list_all2_lengthD)
  have run: "run_from cfg Connecting (Return ws # Return authed # Return df # map Return sent @ rs) =
      prepend ([Send (auth_request cfg), GetMarkets] @ map Send requests @
               [Recv (MESSAGE_TIMEOUT cfg)])
        (run_from cfg (Receiving AwaitRecv) rs)"
    using subscribe_loop_run [OF assms(2) len assms(3), of rs] quoted_currencies_all [OF assms(1)]
    by (simp add: run_from_step del: run_from.simps(2))
  have sends: "session_sends (map Send requests @ acts) = requests @ session_sends acts"
    for acts :: "'a action list"
    by (induction requests) simp_all
  have "session_sends (fst (run_from cfg (Receiving AwaitRecv) rs)) = []"
    by (rule session_sends_quiet) simp
  then show ?thesis
    unfolding run by (simp add: sends)
qed

theorem auth_then_subscriptions_in_order_witness:
  "list_all2 (\<lambda>pair q. loc sample_markets pair = Inr q) (trading_pairs sample_config)
     [''USD'', ''USD''] \<and>
   list_all2 (\<lambda>q request. subscribe_request sample_config q = Inr request) [''USD'', ''USD'']
     [sample_subscribe, sample_subscribe] \<and>
   length [NoneObj, NoneObj] = length [''USD'', ''USD''] \<and>
   run_from sample_config Connecting sample_setup =
     ([Send sample_auth, GetMarkets, Send sample_subscribe, Send sample_subscribe, Recv 30],
      Receiving AwaitRecv) \<and>
   session_sends (fst (run_from sample_config Connecting sample_setup)) =
     [sample_auth, sample_subscribe, sample_subscribe]"
proof -
  have h1: "list_all2 (\<lambda>pair q. loc sample_markets pair = Inr q) (trading_pairs sample_config)
      [''USD'', ''USD'']"
    by (simp add: sample_config_def sample_markets_def)
  have h2: "list_all2 (\<lambda>q request. subscribe_request sample_config q = Inr request)
      [''USD'', ''USD''] [sample_subscribe, sample_subscribe]"
    by (simp add: sample_subscribe_request)
  have h3: "length [NoneObj, NoneObj] = length [''USD'', ''USD'']"
    by simp
  have replies: "Return NoneObj # Return NoneObj # Return sample_markets #
      map Return [NoneObj, NoneObj] @ [] = sample_setup"
    by (simp add: sample_setup_def)
  show ?thesis
    using h1 h2 h3
      auth_then_subscriptions_in_order [OF h1 h2 h3, of NoneObj NoneObj "[]", unfolded replies]
    by (simp add: sample_auth_request sample_constants)
qed

end
